theory Spec2Isabelle
  imports Complex_Main "HOL-Library.Word" "HOL-Library.Signed_Division" "HOL-Library.Log_Nat"
begin

section \<open>Data model of \<open>advclock.hpp\<close>\<close>

text \<open>
  \<open>std::chrono::nanoseconds\<close> and the time points of the steady clock carry a signed 64-bit
  tick count. Both are words of 64 bits that are read with \<open>sint\<close>; subtraction of time
  points and of durations is the subtraction of the words, which wraps around where the
  C++ subtraction overflows.
\<close>

type_synonym int64_t = "64 word"
type_synonym nanoseconds = "64 word"
type_synonym time_point = "64 word"

text \<open>
  \<open>enum Precision : char\<close>. A selector is any value of the underlying 8-bit type, the ten
  enumerators are the ordinals 0 to 9.
\<close>

type_synonym Precision = "8 word"

definition Nanoseconds :: Precision where "Nanoseconds = 0"
definition Microseconds :: Precision where "Microseconds = 1"
definition Milliseconds :: Precision where "Milliseconds = 2"
definition Seconds :: Precision where "Seconds = 3"
definition Minutes :: Precision where "Minutes = 4"
definition Hours :: Precision where "Hours = 5"
definition Days :: Precision where "Days = 6"
definition Weeks :: Precision where "Weeks = 7"
definition Months :: Precision where "Months = 8"
definition Years :: Precision where "Years = 9"

section \<open>Binary64 arithmetic\<close>

text \<open>
  A finite \<open>double\<close> is the rational number it denotes. Every operation of the code on
  doubles (conversion from an integer, a literal, a division) is the exact result rounded
  to the nearest binary64 number, ties to the even significand: 53 significant bits above
  the exponent \<open>- 1022\<close>, a fixed spacing of \<open>2 ^ - 1074\<close> below. Infinities and NaN are not
  values of the model: the code only converts 64-bit counts and divides them by constants
  above 1, so no magnitude exceeds \<open>2 ^ 63\<close>.
\<close>

type_synonym double = rat

definition round_half_even :: "rat \<Rightarrow> int" where
  "round_half_even y =
     (let f = \<lfloor>y\<rfloor>; r = y - of_int f in
      if r < 1 / 2 then f
      else if 1 / 2 < r then f + 1
      else if even f then f else f + 1)"

definition pow2 :: "int \<Rightarrow> rat" where
  "pow2 k = (if 0 \<le> k then 2 ^ nat k else 1 / 2 ^ nat (- k))"

text \<open>The binary exponent of a rational other than 0: the \<open>e\<close> with \<open>2 ^ e \<le> \<bar>x\<bar> < 2 ^ (e + 1)\<close>.\<close>

definition binary_exponent :: "rat \<Rightarrow> int" where
  "binary_exponent x =
     (if 1 \<le> \<bar>x\<bar> then bitlen \<lfloor>\<bar>x\<bar>\<rfloor> - 1 else - bitlen (\<lceil>1 / \<bar>x\<bar>\<rceil> - 1))"

definition round_double :: "rat \<Rightarrow> double" where
  "round_double x =
     (if x = 0 then 0
      else let ulp = pow2 (max (binary_exponent x) (- 1022) - 52)
           in of_int (round_half_even (x / ulp)) * ulp)"

definition literal :: "rat \<Rightarrow> double" where
  "literal q = round_double q"

definition int_to_double :: "int \<Rightarrow> double" where
  "int_to_double k = round_double (of_int k)"

definition int64_to_double :: "int64_t \<Rightarrow> double" where
  "int64_to_double n = int_to_double (sint n)"

definition double_div :: "double \<Rightarrow> double \<Rightarrow> double" where
  "double_div x y = round_double (x / y)"

text \<open>
  The conversion of a \<open>double\<close> to \<open>int64_t\<close> truncates towards zero; it is undefined,
  \<open>None\<close>, where the truncated value is not a 64-bit value.
\<close>

definition double_to_int64 :: "double \<Rightarrow> int64_t option" where
  "double_to_int64 x =
     (let t = (if 0 \<le> x then \<lfloor>x\<rfloor> else \<lceil>x\<rceil>) in
      if - (2 ^ 63) \<le> t \<and> t < 2 ^ 63 then Some (word_of_int t) else None)"

section \<open>\<open>RuntimeCastFromNano\<close> at \<open>rtnType = double\<close>\<close>

definition SecsInMin :: int where "SecsInMin = 60"
definition MinsInHour :: int where "MinsInHour = 60"
definition HoursInDay :: int where "HoursInDay = 24"
definition DaysInWeek :: int where "DaysInWeek = 7"
definition DaysInYear :: double where "DaysInYear = literal 365.24"
definition MonthsInYear :: int where "MonthsInYear = 12"

text \<open>
  The macros of the function body, each one a function of \<open>fromNanos\<close>. \<open>nanos\<close> is the
  64-bit count; dividing it by \<open>rtnType(1000.0)\<close> converts it to \<open>double\<close> first, and the
  integer constants are converted to \<open>double\<close> where they divide one.
\<close>

definition divb1k :: "double \<Rightarrow> double" where
  "divb1k x = double_div x (literal 1000)"

definition nanos :: "nanoseconds \<Rightarrow> int64_t" where
  "nanos fromNanos = fromNanos"

definition micros :: "nanoseconds \<Rightarrow> double" where
  "micros fromNanos = divb1k (int64_to_double (nanos fromNanos))"

definition millis :: "nanoseconds \<Rightarrow> double" where
  "millis fromNanos = divb1k (micros fromNanos)"

definition secs :: "nanoseconds \<Rightarrow> double" where
  "secs fromNanos = divb1k (millis fromNanos)"

definition mins :: "nanoseconds \<Rightarrow> double" where
  "mins fromNanos = double_div (secs fromNanos) (int_to_double SecsInMin)"

definition hours :: "nanoseconds \<Rightarrow> double" where
  "hours fromNanos = double_div (mins fromNanos) (int_to_double MinsInHour)"

definition days :: "nanoseconds \<Rightarrow> double" where
  "days fromNanos = double_div (hours fromNanos) (int_to_double HoursInDay)"

definition weeks :: "nanoseconds \<Rightarrow> double" where
  "weeks fromNanos = double_div (days fromNanos) (int_to_double DaysInWeek)"

definition years :: "nanoseconds \<Rightarrow> double" where
  "years fromNanos = double_div (days fromNanos) DaysInYear"

definition months :: "nanoseconds \<Rightarrow> double" where
  "months fromNanos = double_div (years fromNanos) (int_to_double MonthsInYear)"

text \<open>
  \<open>switch((int)precision)\<close>. Where \<open>char\<close> is signed the cast reads the selector with
  \<open>sint\<close>, where it is unsigned with \<open>uint\<close>; on the case labels 0 to 9 the two agree
  (lemma \<open>switch_value_unsigned\<close> below).
\<close>

definition switch_value :: "Precision \<Rightarrow> int" where
  "switch_value precision = sint precision"

definition RuntimeCastFromNano :: "nanoseconds \<Rightarrow> Precision \<Rightarrow> double" where
  "RuntimeCastFromNano fromNanos precision =
     (let s = switch_value precision in
      if s = sint Nanoseconds then int64_to_double (nanos fromNanos)
      else if s = sint Microseconds then micros fromNanos
      else if s = sint Milliseconds then millis fromNanos
      else if s = sint Seconds then secs fromNanos
      else if s = sint Minutes then mins fromNanos
      else if s = sint Hours then hours fromNanos
      else if s = sint Days then days fromNanos
      else if s = sint Weeks then weeks fromNanos
      else if s = sint Months then months fromNanos
      else if s = sint Years then years fromNanos
      else int64_to_double (nanos fromNanos))"

text \<open>
  \<open>RuntimeCast\<close> at \<open>castType = nanoseconds\<close>, the only use the class makes of it:
  \<open>duration_cast<nanoseconds>\<close> of a nanosecond duration is that duration.
\<close>

definition RuntimeCast :: "nanoseconds \<Rightarrow> Precision \<Rightarrow> double" where
  "RuntimeCast cast precision = RuntimeCastFromNano cast precision"

section \<open>\<open>RuntimeCastFromNano\<close> at \<open>rtnType = int64_t\<close>\<close>

text \<open>
  A client may instantiate the function at an integral return type. At \<open>int64_t\<close> the
  macros divide 64-bit integers, truncating towards zero, as far as \<open>weeks\<close>; \<open>years\<close>
  divides by the \<open>double\<close> constant 365.24, so \<open>years\<close> and \<open>months\<close> are of type
  \<open>double\<close> and the \<open>return\<close> converts them back.
\<close>

definition int64_div :: "int64_t \<Rightarrow> int \<Rightarrow> int64_t" where
  "int64_div x k = word_of_int (sint x sdiv k)"

definition divb1k_int64 :: "int64_t \<Rightarrow> int64_t" where
  "divb1k_int64 x = int64_div x 1000"

definition micros_int64 :: "nanoseconds \<Rightarrow> int64_t" where
  "micros_int64 fromNanos = divb1k_int64 (nanos fromNanos)"

definition millis_int64 :: "nanoseconds \<Rightarrow> int64_t" where
  "millis_int64 fromNanos = divb1k_int64 (micros_int64 fromNanos)"

definition secs_int64 :: "nanoseconds \<Rightarrow> int64_t" where
  "secs_int64 fromNanos = divb1k_int64 (millis_int64 fromNanos)"

definition mins_int64 :: "nanoseconds \<Rightarrow> int64_t" where
  "mins_int64 fromNanos = int64_div (secs_int64 fromNanos) SecsInMin"

definition hours_int64 :: "nanoseconds \<Rightarrow> int64_t" where
  "hours_int64 fromNanos = int64_div (mins_int64 fromNanos) MinsInHour"

definition days_int64 :: "nanoseconds \<Rightarrow> int64_t" where
  "days_int64 fromNanos = int64_div (hours_int64 fromNanos) HoursInDay"

definition weeks_int64 :: "nanoseconds \<Rightarrow> int64_t" where
  "weeks_int64 fromNanos = int64_div (days_int64 fromNanos) DaysInWeek"

definition years_int64 :: "nanoseconds \<Rightarrow> double" where
  "years_int64 fromNanos = double_div (int64_to_double (days_int64 fromNanos)) DaysInYear"

definition months_int64 :: "nanoseconds \<Rightarrow> double" where
  "months_int64 fromNanos = double_div (years_int64 fromNanos) (int_to_double MonthsInYear)"

definition RuntimeCastFromNano_int64 :: "nanoseconds \<Rightarrow> Precision \<Rightarrow> int64_t option" where
  "RuntimeCastFromNano_int64 fromNanos precision =
     (let s = switch_value precision in
      if s = sint Nanoseconds then Some (nanos fromNanos)
      else if s = sint Microseconds then Some (micros_int64 fromNanos)
      else if s = sint Milliseconds then Some (millis_int64 fromNanos)
      else if s = sint Seconds then Some (secs_int64 fromNanos)
      else if s = sint Minutes then Some (mins_int64 fromNanos)
      else if s = sint Hours then Some (hours_int64 fromNanos)
      else if s = sint Days then Some (days_int64 fromNanos)
      else if s = sint Weeks then Some (weeks_int64 fromNanos)
      else if s = sint Months then double_to_int64 (months_int64 fromNanos)
      else if s = sint Years then double_to_int64 (years_int64 fromNanos)
      else Some (nanos fromNanos))"

text \<open>
  \<open>RuntimeCast<rtnType>\<close> calls \<open>RuntimeCastFromNano\<close> without a template argument, so at
  its default \<open>double\<close> whatever \<open>rtnType\<close> is, and converts the result in its own
  \<open>return\<close>. \<open>begin\<close> and \<open>now\<close> default to \<open>rtnType = int64_t\<close>.
\<close>

definition RuntimeCast_int64 :: "nanoseconds \<Rightarrow> Precision \<Rightarrow> int64_t option" where
  "RuntimeCast_int64 cast precision = double_to_int64 (RuntimeCastFromNano cast precision)"

section \<open>The conversion with the rounding erased\<close>

text \<open>
  The exact rational embedding of \<open>RuntimeCastFromNano\<close> at \<open>rtnType = double\<close>: the same
  macros and the same dispatch, every conversion and division exact.
\<close>

definition divb1k_exact :: "rat \<Rightarrow> rat" where
  "divb1k_exact x = x / 1000"

definition nanos_exact :: "nanoseconds \<Rightarrow> rat" where
  "nanos_exact fromNanos = of_int (sint (nanos fromNanos))"

definition micros_exact :: "nanoseconds \<Rightarrow> rat" where
  "micros_exact fromNanos = divb1k_exact (nanos_exact fromNanos)"

definition millis_exact :: "nanoseconds \<Rightarrow> rat" where
  "millis_exact fromNanos = divb1k_exact (micros_exact fromNanos)"

definition secs_exact :: "nanoseconds \<Rightarrow> rat" where
  "secs_exact fromNanos = divb1k_exact (millis_exact fromNanos)"

definition mins_exact :: "nanoseconds \<Rightarrow> rat" where
  "mins_exact fromNanos = secs_exact fromNanos / of_int SecsInMin"

definition hours_exact :: "nanoseconds \<Rightarrow> rat" where
  "hours_exact fromNanos = mins_exact fromNanos / of_int MinsInHour"

definition days_exact :: "nanoseconds \<Rightarrow> rat" where
  "days_exact fromNanos = hours_exact fromNanos / of_int HoursInDay"

definition weeks_exact :: "nanoseconds \<Rightarrow> rat" where
  "weeks_exact fromNanos = days_exact fromNanos / of_int DaysInWeek"

definition years_exact :: "nanoseconds \<Rightarrow> rat" where
  "years_exact fromNanos = days_exact fromNanos / 365.24"

definition months_exact :: "nanoseconds \<Rightarrow> rat" where
  "months_exact fromNanos = years_exact fromNanos / of_int MonthsInYear"

definition RuntimeCastFromNano_exact :: "nanoseconds \<Rightarrow> Precision \<Rightarrow> rat" where
  "RuntimeCastFromNano_exact fromNanos precision =
     (let s = switch_value precision in
      if s = sint Nanoseconds then nanos_exact fromNanos
      else if s = sint Microseconds then micros_exact fromNanos
      else if s = sint Milliseconds then millis_exact fromNanos
      else if s = sint Seconds then secs_exact fromNanos
      else if s = sint Minutes then mins_exact fromNanos
      else if s = sint Hours then hours_exact fromNanos
      else if s = sint Days then days_exact fromNanos
      else if s = sint Weeks then weeks_exact fromNanos
      else if s = sint Months then months_exact fromNanos
      else if s = sint Years then years_exact fromNanos
      else nanos_exact fromNanos)"

section \<open>The clock source, the process epoch and the instances\<close>

text \<open>
  \<open>ClockType::now()\<close> is the only input of the class. The clock source is the sequence of
  the samples it will return, \<open>steady\<close>, with the number of reads made so far; a read
  returns the next sample and counts it.
\<close>

record clock_source =
  steady :: "nat \<Rightarrow> time_point"
  reads :: nat

definition ClockType_now :: "clock_source \<Rightarrow> time_point \<times> clock_source" where
  "ClockType_now k = (steady k (reads k), k\<lparr>reads := reads k + 1\<rparr>)"

record ADVClock =
  m_begin :: time_point

text \<open>The constructor: \<open>m_begin(ClockType::now())\<close>.\<close>

definition ADVClock_ctor :: "clock_source \<Rightarrow> ADVClock \<times> clock_source" where
  "ADVClock_ctor k = (case ClockType_now k of (t, k') \<Rightarrow> (\<lparr>m_begin = t\<rparr>, k'))"

text \<open>
  The state shared by all instances: the clock source and the static member
  \<open>GLOBAL_CLOCK\<close>, which static initialisation constructs like any other instance.
  The class is modelled at \<open>T = GlobalClockType\<close>, the instantiation the header defines
  \<open>GLOBAL_CLOCK\<close> for: instances and \<open>GLOBAL_CLOCK\<close> read the same clock.
\<close>

record process =
  clk :: clock_source
  GLOBAL_CLOCK :: ADVClock

definition static_init :: "clock_source \<Rightarrow> process" where
  "static_init k = (case ADVClock_ctor k of (g, k') \<Rightarrow> \<lparr>clk = k', GLOBAL_CLOCK = g\<rparr>)"

text \<open>
  A member function runs on \<open>this\<close> and the process state and returns its value with both,
  updated. None of them is declared \<open>const\<close>, so each is modelled with the same shape.
\<close>

type_synonym 'a member = "ADVClock \<times> process \<Rightarrow> 'a \<times> ADVClock \<times> process"

definition beginDur :: "nanoseconds member" where
  "beginDur = (\<lambda>(this, w). (m_begin this - m_begin (GLOBAL_CLOCK w), this, w))"

definition begin_int64 :: "Precision \<Rightarrow> int64_t option member" where
  "begin_int64 precision = (\<lambda>s.
     case beginDur s of (d, this, w) \<Rightarrow> (RuntimeCast_int64 d Nanoseconds, this, w))"

definition begin_double :: "Precision \<Rightarrow> double member" where
  "begin_double precision = (\<lambda>s.
     case beginDur s of (d, this, w) \<Rightarrow> (RuntimeCast d Nanoseconds, this, w))"

definition nowDur :: "nanoseconds member" where
  "nowDur = (\<lambda>(this, w).
     case ClockType_now (clk w) of (t, k') \<Rightarrow>
       (t - m_begin (GLOBAL_CLOCK w), this, w\<lparr>clk := k'\<rparr>))"

definition now_int64 :: "Precision \<Rightarrow> int64_t option member" where
  "now_int64 precision = (\<lambda>s.
     case nowDur s of (d, this, w) \<Rightarrow> (RuntimeCast_int64 d Nanoseconds, this, w))"

definition now_double :: "Precision \<Rightarrow> double member" where
  "now_double precision = (\<lambda>s.
     case nowDur s of (d, this, w) \<Rightarrow> (RuntimeCast d Nanoseconds, this, w))"

definition tare :: "unit member" where
  "tare = (\<lambda>(this, w).
     case ClockType_now (clk w) of (t, k') \<Rightarrow>
       ((), this\<lparr>m_begin := t\<rparr>, w\<lparr>clk := k'\<rparr>))"

text \<open>
  \<open>auto rtn = nowDur() - beginDur(); tareClock ? tare() : void(0); return rtn;\<close>
  Only \<open>nowDur\<close> reads the clock, so the order of the two operands does not matter.
\<close>

definition elapsedRawNanoDur :: "bool \<Rightarrow> nanoseconds member" where
  "elapsedRawNanoDur tareClock = (\<lambda>s.
     case nowDur s of (n, this1, w1) \<Rightarrow>
     case beginDur (this1, w1) of (b, this2, w2) \<Rightarrow>
     let rtn = n - b in
     case (if tareClock then tare (this2, w2) else ((), this2, w2)) of (u, this3, w3) \<Rightarrow>
       (rtn, this3, w3))"

text \<open>\<open>elapsedRawNano\<close> calls \<open>elapsedRawNanoDur()\<close> with its default argument and tares itself.\<close>

definition elapsedRawNano :: "bool \<Rightarrow> int64_t member" where
  "elapsedRawNano tareClock = (\<lambda>s.
     case elapsedRawNanoDur False s of (d, this1, w1) \<Rightarrow>
     let rtn = d in
     case (if tareClock then tare (this1, w1) else ((), this1, w1)) of (u, this2, w2) \<Rightarrow>
       (rtn, this2, w2))"

definition elapsed_double :: "Precision \<Rightarrow> bool \<Rightarrow> double member" where
  "elapsed_double precision tareClock = (\<lambda>s.
     case elapsedRawNanoDur tareClock s of (d, this, w) \<Rightarrow> (RuntimeCast d precision, this, w))"

definition elapsed_int64 :: "Precision \<Rightarrow> bool \<Rightarrow> int64_t option member" where
  "elapsed_int64 precision tareClock = (\<lambda>s.
     case elapsedRawNanoDur tareClock s of (d, this, w) \<Rightarrow>
       (RuntimeCast_int64 d precision, this, w))"

section \<open>Client programs\<close>

text \<open>
  A client owns a list of instances and calls the public interface on them, one call after
  the other. A call on an instance that was never constructed is not a program: it has no
  result.
\<close>

datatype call =
    New
  | Tare nat
  | BeginDur nat
  | Begin_int64 nat Precision
  | Begin_double nat Precision
  | NowDur nat
  | Now_int64 nat Precision
  | Now_double nat Precision
  | ElapsedRawNanoDur nat bool
  | ElapsedRawNano nat bool
  | Elapsed_double nat Precision bool
  | Elapsed_int64 nat Precision bool
  | Static_RuntimeCast nanoseconds Precision
  | Static_RuntimeCast_int64 nanoseconds Precision
  | Static_RuntimeCastFromNano nanoseconds Precision
  | Static_RuntimeCastFromNano_int64 nanoseconds Precision

datatype result =
    Void
  | Object nat
  | Duration nanoseconds
  | Int64 int64_t
  | Double double
  | Undefined

text \<open>The result of a conversion to \<open>int64_t\<close> that may be undefined.\<close>

definition Int64_result :: "int64_t option \<Rightarrow> result" where
  "Int64_result r = (case r of None \<Rightarrow> Undefined | Some v \<Rightarrow> Int64 v)"

type_synonym client_state = "ADVClock list \<times> process"

definition invoke ::
  "'a member \<Rightarrow> ('a \<Rightarrow> result) \<Rightarrow> nat \<Rightarrow> client_state \<Rightarrow> (result \<times> client_state) option" where
  "invoke m wrap i = (\<lambda>(objs, w).
     if i < length objs
     then (case m (objs ! i, w) of (r, this, w') \<Rightarrow> Some (wrap r, objs[i := this], w'))
     else None)"

fun exec :: "call \<Rightarrow> client_state \<Rightarrow> (result \<times> client_state) option" where
  "exec New (objs, w) =
     (case ADVClock_ctor (clk w) of (c, k') \<Rightarrow>
        Some (Object (length objs), objs @ [c], w\<lparr>clk := k'\<rparr>))"
| "exec (Tare i) s = invoke tare (\<lambda>u. Void) i s"
| "exec (BeginDur i) s = invoke beginDur Duration i s"
| "exec (Begin_int64 i p) s = invoke (begin_int64 p) Int64_result i s"
| "exec (Begin_double i p) s = invoke (begin_double p) Double i s"
| "exec (NowDur i) s = invoke nowDur Duration i s"
| "exec (Now_int64 i p) s = invoke (now_int64 p) Int64_result i s"
| "exec (Now_double i p) s = invoke (now_double p) Double i s"
| "exec (ElapsedRawNanoDur i t) s = invoke (elapsedRawNanoDur t) Duration i s"
| "exec (ElapsedRawNano i t) s = invoke (elapsedRawNano t) Int64 i s"
| "exec (Elapsed_double i p t) s = invoke (elapsed_double p t) Double i s"
| "exec (Elapsed_int64 i p t) s = invoke (elapsed_int64 p t) Int64_result i s"
| "exec (Static_RuntimeCast d p) s = Some (Double (RuntimeCast d p), s)"
| "exec (Static_RuntimeCast_int64 d p) s = Some (Int64_result (RuntimeCast_int64 d p), s)"
| "exec (Static_RuntimeCastFromNano d p) s = Some (Double (RuntimeCastFromNano d p), s)"
| "exec (Static_RuntimeCastFromNano_int64 d p) s =
     Some (Int64_result (RuntimeCastFromNano_int64 d p), s)"

fun run :: "call list \<Rightarrow> client_state \<Rightarrow> (result list \<times> client_state) option" where
  "run [] s = Some ([], s)"
| "run (c # cs) s =
     (case exec c s of
        None \<Rightarrow> None
      | Some (r, s') \<Rightarrow>
          (case run cs s' of None \<Rightarrow> None | Some (rs, s'') \<Rightarrow> Some (r # rs, s'')))"

text \<open>The calls that the interface documents as writing \<open>m_begin\<close>.\<close>

fun mutates :: "call \<Rightarrow> bool" where
  "mutates New = True"
| "mutates (Tare i) = True"
| "mutates (ElapsedRawNanoDur i t) = t"
| "mutates (ElapsedRawNano i t) = t"
| "mutates (Elapsed_double i p t) = t"
| "mutates (Elapsed_int64 i p t) = t"
| "mutates c = False"

section \<open>The conversion chain as the specification words it\<close>

text \<open>
  The chained division of the specification, from the raw count: each unit is the previous
  value divided by a constant, in \<open>double\<close> arithmetic. 1000, 60, 24, 7 and 12 are doubles;
  365.24 stands for the double nearest to it.
\<close>

definition spec_nanos :: "int64_t \<Rightarrow> double" where
  "spec_nanos n = int64_to_double n"

definition spec_micros :: "int64_t \<Rightarrow> double" where
  "spec_micros n = double_div (spec_nanos n) 1000"

definition spec_millis :: "int64_t \<Rightarrow> double" where
  "spec_millis n = double_div (spec_micros n) 1000"

definition spec_secs :: "int64_t \<Rightarrow> double" where
  "spec_secs n = double_div (spec_millis n) 1000"

definition spec_mins :: "int64_t \<Rightarrow> double" where
  "spec_mins n = double_div (spec_secs n) 60"

definition spec_hours :: "int64_t \<Rightarrow> double" where
  "spec_hours n = double_div (spec_mins n) 60"

definition spec_days :: "int64_t \<Rightarrow> double" where
  "spec_days n = double_div (spec_hours n) 24"

definition spec_weeks :: "int64_t \<Rightarrow> double" where
  "spec_weeks n = double_div (spec_days n) 7"

definition spec_years :: "int64_t \<Rightarrow> double" where
  "spec_years n = double_div (spec_days n) (round_double 365.24)"

definition spec_months :: "int64_t \<Rightarrow> double" where
  "spec_months n = double_div (spec_years n) 12"

text \<open>The direct reading of \<open>elapsed\<close>: one clock sample minus the reference point.\<close>

definition spec_elapsed :: "ADVClock \<Rightarrow> process \<Rightarrow> nanoseconds" where
  "spec_elapsed this w = fst (ClockType_now (clk w)) - m_begin this"

section \<open>Collected unfolding rules\<close>

lemmas Precision_defs =
  Nanoseconds_def Microseconds_def Milliseconds_def Seconds_def Minutes_def
  Hours_def Days_def Weeks_def Months_def Years_def

lemmas ratio_defs =
  SecsInMin_def MinsInHour_def HoursInDay_def DaysInWeek_def DaysInYear_def MonthsInYear_def

lemmas unit_defs =
  divb1k_def nanos_def micros_def millis_def secs_def mins_def
  hours_def days_def weeks_def years_def months_def

lemmas unit_int64_defs =
  int64_div_def divb1k_int64_def nanos_def
  micros_int64_def millis_int64_def secs_int64_def mins_int64_def hours_int64_def
  days_int64_def weeks_int64_def years_int64_def months_int64_def

lemmas unit_exact_defs =
  divb1k_exact_def nanos_exact_def nanos_def micros_exact_def millis_exact_def
  secs_exact_def mins_exact_def hours_exact_def days_exact_def weeks_exact_def
  years_exact_def months_exact_def

lemmas spec_defs =
  spec_nanos_def spec_micros_def spec_millis_def spec_secs_def spec_mins_def spec_hours_def
  spec_days_def spec_weeks_def spec_years_def spec_months_def

section \<open>The selector and the 64-bit count\<close>

lemma switch_value_unsigned:
  fixes p :: Precision
  assumes "0 \<le> k" "k \<le> 9"
  shows "(sint p = k) = (uint p = k)"
proof
  assume "sint p = k"
  then have "take_bit 8 (sint p) = take_bit 8 k" by simp
  moreover have "take_bit 8 k = k" using assms by (simp add: take_bit_int_eq_self)
  ultimately show "uint p = k" using uint_sint [of p] by simp
next
  assume "uint p = k"
  then have "signed_take_bit 7 (uint p) = signed_take_bit 7 k" by simp
  moreover have "signed_take_bit 7 k = k" using assms by (simp add: signed_take_bit_int_eq_self)
  ultimately show "sint p = k" by (simp add: sint_uint)
qed

lemma sint_selector_eq:
  fixes p q :: Precision
  shows "(sint p = sint q) = (p = q)"
  by (auto intro: signed_word_eqI)

text \<open>
  Negation of a 64-bit count negates its value, except at the least count \<open>- 2 ^ 63\<close>,
  whose negation is not a 64-bit value.
\<close>

lemma sint_uminus_int64:
  fixes d :: int64_t
  assumes "d \<noteq> - (2 ^ 63)"
  shows "sint (- d) = - sint d"
proof -
  have ne: "sint d \<noteq> - (2 ^ 63)"
  proof
    assume "sint d = - (2 ^ 63)"
    then have "word_of_int (sint d) = (word_of_int (- (2 ^ 63)) :: int64_t)" by simp
    then show False using assms by simp
  qed
  have lo: "- (2 ^ 63) \<le> sint d" using sint_ge [of d] by simp
  have hi: "sint d < 2 ^ 63" using sint_lt [of d] by simp
  have "signed_take_bit 63 (- sint d) = - sint d"
    using ne lo hi by (simp add: signed_take_bit_int_eq_self_iff)
  then show ?thesis by (simp add: sint_word_minus)
qed

section \<open>Facts about binary64 rounding\<close>

lemma round_double_0: "round_double 0 = 0"
  by (simp add: round_double_def)

lemma round_half_even_of_int: "round_half_even (of_int m) = m"
  by (simp add: round_half_even_def)

lemma pow2_nonpos: "0 \<le> j \<Longrightarrow> pow2 (- j) = 1 / 2 ^ nat j"
  by (auto simp: pow2_def)

lemma binary_exponent_of_int:
  assumes "n \<noteq> 0"
  shows "binary_exponent (of_int n) = bitlen \<bar>n\<bar> - 1"
proof -
  have "\<bar>rat_of_int n\<bar> = of_int \<bar>n\<bar>" by simp
  moreover have "1 \<le> \<bar>n\<bar>" using assms by simp
  then have "(1::rat) \<le> of_int \<bar>n\<bar>" by (metis of_int_1_le_iff) 
  ultimately show ?thesis
    unfolding binary_exponent_def by (simp del: of_int_abs)
qed

lemma round_double_of_int_small:
  assumes "\<bar>n\<bar> < 2 ^ 53"
  shows "round_double (of_int n) = of_int n"
proof (cases "n = 0")
  case True
  then show ?thesis by (simp add: round_double_0)
next
  case False
  then have pos: "0 < \<bar>n\<bar>" by simp
  define e where "e = bitlen \<bar>n\<bar> - 1"
  have "bitlen \<bar>n\<bar> \<le> 53"
    using assms by (simp add: bitlen_le_iff_power)
  moreover have "1 \<le> bitlen \<bar>n\<bar>"
    using pos bitlen_eq_zero_iff [of "\<bar>n\<bar>"] bitlen_nonneg [of "\<bar>n\<bar>"] by linarith
  ultimately have e: "0 \<le> e" "e \<le> 52" by (simp_all add: e_def)
  define k where "k = nat (52 - e)"
  have ulp: "pow2 (max e (- 1022) - 52) = 1 / 2 ^ k"
  proof -
    have "max e (- 1022) - 52 = - (52 - e)" using e by simp
    then show ?thesis using e pow2_nonpos [of "52 - e"] by (simp add: k_def)
  qed
  have q: "rat_of_int n / (1 / 2 ^ k) = of_int (n * 2 ^ k)" by simp
  have "round_double (of_int n) = of_int (round_half_even (of_int n / (1 / 2 ^ k))) * (1 / 2 ^ k)"
    using False ulp by (simp add: round_double_def binary_exponent_of_int e_def Let_def)
  also have "\<dots> = of_int (n * 2 ^ k) * (1 / 2 ^ k)"
    unfolding q round_half_even_of_int ..
  also have "\<dots> = of_int n" by simp
  finally show ?thesis .
qed

lemma round_double_2_53:
  "round_double 9007199254740992 = 9007199254740992"
  "round_double (- 9007199254740992) = - 9007199254740992"
  by code_simp+

lemma round_double_of_int:
  assumes "\<bar>n\<bar> \<le> 2 ^ 53"
  shows "round_double (of_int n) = of_int n"
proof -
  have p: "(2::int) ^ 53 = 9007199254740992" by simp
  have "\<bar>n\<bar> < 2 ^ 53 \<or> n = 9007199254740992 \<or> n = - 9007199254740992"
    using assms unfolding p by linarith
  then show ?thesis
    by (auto simp: round_double_of_int_small round_double_2_53)
qed

lemma double_to_int64_of_int:
  assumes "- (2 ^ 63) \<le> n" "n < 2 ^ 63"
  shows "double_to_int64 (of_int n) = Some (word_of_int n)"
proof -
  have "\<lfloor>rat_of_int n\<rfloor> = n" and "\<lceil>rat_of_int n\<rceil> = n"
    by (rule floor_of_int, rule ceiling_of_int)
  then have "(if 0 \<le> rat_of_int n then \<lfloor>rat_of_int n\<rfloor> else \<lceil>rat_of_int n\<rceil>) = n"
    by presburger
  then show ?thesis using assms unfolding double_to_int64_def Let_def by simp 
qed

lemma int64_through_double:
  fixes c :: int64_t
  assumes "\<bar>sint c\<bar> \<le> 2 ^ 53"
  shows "double_to_int64 (int64_to_double c) = Some c"
proof -
  have "int64_to_double c = of_int (sint c)"
    unfolding int64_to_double_def int_to_double_def using assms by (rule round_double_of_int)
  moreover have "- (2 ^ 63) \<le> sint c" "sint c < 2 ^ 63"
    using assms by (auto simp: abs_le_iff)
  ultimately show ?thesis
    using double_to_int64_of_int [of "sint c"] by simp
qed


lemma floor_uminus_nonint:
  fixes y :: rat
  assumes "y \<noteq> of_int \<lfloor>y\<rfloor>"
  shows "\<lfloor>- y\<rfloor> = - \<lfloor>y\<rfloor> - 1"
proof (rule floor_unique)
  have l: "of_int \<lfloor>y\<rfloor> < y" using assms of_int_floor_le [of y] by linarith
  have u: "y < of_int \<lfloor>y\<rfloor> + 1" by linarith
  show "of_int (- \<lfloor>y\<rfloor> - 1) \<le> - y" using u by simp
  show "- y < of_int (- \<lfloor>y\<rfloor> - 1) + 1" using l by simp
qed

lemma round_half_even_uminus: "round_half_even (- y) = - round_half_even y"
proof (cases "y = of_int \<lfloor>y\<rfloor>")
  case True
  then obtain m where "y = of_int m" ..
  then have "- y = of_int (- m)" by simp
  then show ?thesis unfolding \<open>y = of_int m\<close> by (metis round_half_even_of_int)
next
  case False
  define f where "f = \<lfloor>y\<rfloor>"
  define r where "r = y - of_int f"
  have fl: "\<lfloor>- y\<rfloor> = - f - 1" using False by (simp add: floor_uminus_nonint f_def)
  have r: "0 < r" "r < 1"
    using False of_int_floor_le [of y] floor_less_one [of y]  unfolding r_def f_def by linarith+
  have r': "- y - of_int (- f - 1) = 1 - r" by (simp add: r_def)
  have par: "even (- f - 1) = odd f" by simp
  have a: "round_half_even y = (if r < 1 / 2 then f else if 1 / 2 < r then f + 1
        else if even f then f else f + 1)"
    by (simp add: round_half_even_def Let_def f_def r_def)
  have b: "round_half_even (- y) = (if 1 - r < 1 / 2 then - f - 1 else if 1 / 2 < 1 - r then - f
        else if odd f then - f - 1 else - f)"
    unfolding round_half_even_def Let_def fl r' par by simp
  show ?thesis unfolding a b using r by (auto simp: field_simps)
qed

lemma binary_exponent_uminus: "binary_exponent (- x) = binary_exponent x"
  by (simp add: binary_exponent_def)

lemma round_double_uminus: "round_double (- x) = - round_double x"
  by (simp add: round_double_def binary_exponent_uminus Let_def round_half_even_uminus)

lemma double_div_uminus: "double_div (- x) y = - double_div x y"
  by (simp add: double_div_def round_double_uminus)

lemma int64_to_double_uminus:
  fixes d :: int64_t
  assumes "d \<noteq> - (2 ^ 63)"
  shows "int64_to_double (- d) = - int64_to_double d"
  using assms
  by (simp add: int64_to_double_def int_to_double_def sint_uminus_int64 round_double_uminus)

text \<open>The constants of the chain are binary64 numbers, except 365.24.\<close>

lemma chain_constants:
  "literal 1000 = 1000" "int_to_double 60 = 60" "int_to_double 24 = 24"
  "int_to_double 7 = 7" "int_to_double 12 = 12"
  by code_simp+

lemma DaysInYear_value: "DaysInYear = 1606342507715625 / 2 ^ 42"
  by code_simp

lemma RuntimeCast_Nanoseconds: "RuntimeCast d Nanoseconds = int64_to_double d"
  by (simp add: RuntimeCast_def RuntimeCastFromNano_def switch_value_def nanos_def)

lemma RuntimeCast_int64_Nanoseconds:
  "RuntimeCast_int64 d Nanoseconds = double_to_int64 (int64_to_double d)"
  by (simp add: RuntimeCast_int64_def RuntimeCastFromNano_def switch_value_def nanos_def)

section \<open>The model at concrete counts\<close>

text \<open>
  The examples of the specification, and counts at which the rounding shows: a count
  above \<open>2 ^ 53\<close> is not a double, one day is not a binary fraction of a year, and the
  chained division of one nanosecond differs from a single division by \<open>10 ^ 9\<close>.
\<close>

lemma RuntimeCastFromNano_examples:
  "RuntimeCastFromNano 60000000000 Minutes = 1"
  "RuntimeCastFromNano 3600000000000 Hours = 1"
  "RuntimeCastFromNano 86400000000000 Days = 1"
  by code_simp+

lemma RuntimeCastFromNano_rounds:
  "RuntimeCastFromNano 9007199254740993 Nanoseconds = 9007199254740992"
  "RuntimeCastFromNano 86400000000000 Years = 6313226944512359 / 2 ^ 61"
  "RuntimeCastFromNano 1 Seconds = 1208925819614629 / 2 ^ 80"
  "round_double (1 / 1000000000) = 4835703278458517 / 2 ^ 82"
  by code_simp+

lemma RuntimeCast_int64_rounds:
  "RuntimeCast_int64 9007199254740993 Nanoseconds = Some 9007199254740992"
  "RuntimeCast_int64 9223372036854775807 Nanoseconds = None"
  by code_simp+

lemma RuntimeCast_ten_milliseconds: "RuntimeCast 10000000 Milliseconds = 10"
  by code_simp

section \<open>The conversion function\<close>

text \<open>
  C1. For every signed nanosecond count, \<open>RuntimeCastFromNano\<close> at the default return type
  \<open>double\<close> returns the value of the chained division for the requested unit, in binary64
  arithmetic: the count as a double for Nanoseconds, then a division by 1000 for each of
  Microseconds, Milliseconds and Seconds, by 60 for Minutes and Hours, by 24 for Days,
  by 7 for Weeks (from Days), by 365.24 for Years (from Days) and by 12 for Months
  (from Years).
\<close>

theorem RuntimeCastFromNano_chained_division:
  "RuntimeCastFromNano d Nanoseconds = spec_nanos d
   \<and> RuntimeCastFromNano d Microseconds = spec_micros d
   \<and> RuntimeCastFromNano d Milliseconds = spec_millis d
   \<and> RuntimeCastFromNano d Seconds = spec_secs d
   \<and> RuntimeCastFromNano d Minutes = spec_mins d
   \<and> RuntimeCastFromNano d Hours = spec_hours d
   \<and> RuntimeCastFromNano d Days = spec_days d
   \<and> RuntimeCastFromNano d Weeks = spec_weeks d
   \<and> RuntimeCastFromNano d Years = spec_years d
   \<and> RuntimeCastFromNano d Months = spec_months d"
  by (simp add: RuntimeCastFromNano_def switch_value_def Precision_defs unit_defs ratio_defs
      spec_defs chain_constants)
    (simp add: literal_def)

text \<open>
  C4. For every duration and every selector that is none of the ten enumerators, the
  conversion does not fail and returns the raw nanosecond count converted to the return
  type: the count as a double at \<open>double\<close>, the count itself at \<open>int64_t\<close>.
\<close>

theorem RuntimeCastFromNano_unknown_selector:
  assumes "p \<notin> {Nanoseconds, Microseconds, Milliseconds, Seconds, Minutes, Hours, Days,
                 Weeks, Months, Years}"
  shows "RuntimeCastFromNano d p = int64_to_double d
         \<and> RuntimeCastFromNano_int64 d p = Some d"
  using assms
  by (simp add: RuntimeCastFromNano_def RuntimeCastFromNano_int64_def switch_value_def
      sint_selector_eq nanos_def)

theorem RuntimeCastFromNano_unknown_selector_witness:
  "(10 :: Precision) \<notin> {Nanoseconds, Microseconds, Milliseconds, Seconds, Minutes, Hours,
                          Days, Weeks, Months, Years}
   \<and> RuntimeCastFromNano (- 7) 10 = - 7 \<and> RuntimeCastFromNano_int64 (- 7) 10 = Some (- 7)"
proof -
  have h: "(10 :: Precision) \<notin> {Nanoseconds, Microseconds, Milliseconds, Seconds, Minutes,
                                  Hours, Days, Weeks, Months, Years}"
    by (simp add: Precision_defs)
  have v: "int64_to_double (- 7) = - 7" by code_simp
  show ?thesis
    using h v RuntimeCastFromNano_unknown_selector [OF h, of "- 7"] by simp
qed

text \<open>
  C5. The converted values of adjacent units stand in the fixed ratios, for every
  duration (so for every duration that is not negative): each of Microseconds,
  Milliseconds and Seconds is the previous unit divided by 1000, Minutes is Seconds by 60,
  Hours is Minutes by 60, Days is Hours by 24, Weeks is Days by 7, Years is Days by 365.24
  and Months is Years by 12. Over the exact rational embedding the division is the exact
  quotient; in binary64 it is the division of the code, by the same constants.
\<close>

theorem RuntimeCastFromNano_adjacent_ratios:
  "RuntimeCastFromNano_exact d Microseconds = RuntimeCastFromNano_exact d Nanoseconds / 1000
   \<and> RuntimeCastFromNano_exact d Milliseconds = RuntimeCastFromNano_exact d Microseconds / 1000
   \<and> RuntimeCastFromNano_exact d Seconds = RuntimeCastFromNano_exact d Milliseconds / 1000
   \<and> RuntimeCastFromNano_exact d Minutes = RuntimeCastFromNano_exact d Seconds / 60
   \<and> RuntimeCastFromNano_exact d Hours = RuntimeCastFromNano_exact d Minutes / 60
   \<and> RuntimeCastFromNano_exact d Days = RuntimeCastFromNano_exact d Hours / 24
   \<and> RuntimeCastFromNano_exact d Weeks = RuntimeCastFromNano_exact d Days / 7
   \<and> RuntimeCastFromNano_exact d Years = RuntimeCastFromNano_exact d Days / 365.24
   \<and> RuntimeCastFromNano_exact d Months = RuntimeCastFromNano_exact d Years / 12
   \<and> RuntimeCastFromNano d Microseconds = double_div (RuntimeCastFromNano d Nanoseconds) 1000
   \<and> RuntimeCastFromNano d Milliseconds = double_div (RuntimeCastFromNano d Microseconds) 1000
   \<and> RuntimeCastFromNano d Seconds = double_div (RuntimeCastFromNano d Milliseconds) 1000
   \<and> RuntimeCastFromNano d Minutes = double_div (RuntimeCastFromNano d Seconds) 60
   \<and> RuntimeCastFromNano d Hours = double_div (RuntimeCastFromNano d Minutes) 60
   \<and> RuntimeCastFromNano d Days = double_div (RuntimeCastFromNano d Hours) 24
   \<and> RuntimeCastFromNano d Weeks = double_div (RuntimeCastFromNano d Days) 7
   \<and> RuntimeCastFromNano d Years
       = double_div (RuntimeCastFromNano d Days) (round_double 365.24)
   \<and> RuntimeCastFromNano d Months = double_div (RuntimeCastFromNano d Years) 12"
proof -
  have e: "RuntimeCastFromNano_exact d Microseconds = RuntimeCastFromNano_exact d Nanoseconds / 1000
   \<and> RuntimeCastFromNano_exact d Milliseconds = RuntimeCastFromNano_exact d Microseconds / 1000
   \<and> RuntimeCastFromNano_exact d Seconds = RuntimeCastFromNano_exact d Milliseconds / 1000
   \<and> RuntimeCastFromNano_exact d Minutes = RuntimeCastFromNano_exact d Seconds / 60
   \<and> RuntimeCastFromNano_exact d Hours = RuntimeCastFromNano_exact d Minutes / 60
   \<and> RuntimeCastFromNano_exact d Days = RuntimeCastFromNano_exact d Hours / 24
   \<and> RuntimeCastFromNano_exact d Weeks = RuntimeCastFromNano_exact d Days / 7
   \<and> RuntimeCastFromNano_exact d Years = RuntimeCastFromNano_exact d Days / 365.24
   \<and> RuntimeCastFromNano_exact d Months = RuntimeCastFromNano_exact d Years / 12"
    by (simp add: RuntimeCastFromNano_exact_def switch_value_def Precision_defs
        unit_exact_defs ratio_defs)
  have b: "RuntimeCastFromNano d Microseconds = double_div (RuntimeCastFromNano d Nanoseconds) 1000
   \<and> RuntimeCastFromNano d Milliseconds = double_div (RuntimeCastFromNano d Microseconds) 1000
   \<and> RuntimeCastFromNano d Seconds = double_div (RuntimeCastFromNano d Milliseconds) 1000
   \<and> RuntimeCastFromNano d Minutes = double_div (RuntimeCastFromNano d Seconds) 60
   \<and> RuntimeCastFromNano d Hours = double_div (RuntimeCastFromNano d Minutes) 60
   \<and> RuntimeCastFromNano d Days = double_div (RuntimeCastFromNano d Hours) 24
   \<and> RuntimeCastFromNano d Weeks = double_div (RuntimeCastFromNano d Days) 7
   \<and> RuntimeCastFromNano d Years
       = double_div (RuntimeCastFromNano d Days) (round_double 365.24)
   \<and> RuntimeCastFromNano d Months = double_div (RuntimeCastFromNano d Years) 12"
    by (simp add: RuntimeCastFromNano_def switch_value_def Precision_defs unit_defs ratio_defs
        chain_constants)
      (simp add: literal_def)
  from e b show ?thesis by (elim conjE, intro conjI) assumption+
qed

text \<open>
  C9. A zero duration converts to zero for every selector, enumerator or not, at the
  return types \<open>double\<close> and \<open>int64_t\<close>, the latter both for \<open>RuntimeCastFromNano\<close>
  and for \<open>RuntimeCast\<close>; in binary64 and over the exact rational embedding.
\<close>

theorem RuntimeCastFromNano_zero:
  "RuntimeCastFromNano 0 p = 0
   \<and> RuntimeCastFromNano_int64 0 p = Some 0
   \<and> RuntimeCast_int64 0 p = Some 0
   \<and> RuntimeCastFromNano_exact 0 p = 0"
proof -
  have z: "int64_to_double 0 = 0" "double_to_int64 0 = Some 0" "\<And>y. double_div 0 y = 0"
    by (simp_all add: int64_to_double_def int_to_double_def double_to_int64_def double_div_def
        round_double_0)
  have f: "RuntimeCastFromNano 0 p = 0"
    by (simp add: RuntimeCastFromNano_def Let_def unit_defs z)
  have g: "RuntimeCastFromNano_int64 0 p = Some 0"
    by (simp add: RuntimeCastFromNano_int64_def Let_def unit_int64_defs z)
  have h: "RuntimeCastFromNano_exact 0 p = 0"
    by (simp add: RuntimeCastFromNano_exact_def Let_def unit_exact_defs)
  from f g h show ?thesis
    by (simp add: RuntimeCast_int64_def z)
qed

text \<open>
  C10, as amended. Negative durations are neither guarded against nor clamped: for every
  nanosecond count other than the least 64-bit count and for every selector, the
  conversion of the negated count is the negated conversion, over the exact rational
  embedding and in binary64 alike.
\<close>

theorem RuntimeCastFromNano_odd:
  assumes "d \<noteq> - (2 ^ 63)"
  shows "RuntimeCastFromNano_exact (- d) p = - RuntimeCastFromNano_exact d p
         \<and> RuntimeCastFromNano (- d) p = - RuntimeCastFromNano d p"
proof -
  have e: "RuntimeCastFromNano_exact (- d) p = - RuntimeCastFromNano_exact d p"
    using assms
    by (simp add: RuntimeCastFromNano_exact_def Let_def unit_exact_defs sint_uminus_int64)
  have b: "RuntimeCastFromNano (- d) p = - RuntimeCastFromNano d p"
    using assms
    by (simp add: RuntimeCastFromNano_def Let_def unit_defs int64_to_double_uminus
        double_div_uminus)
  from e b show ?thesis ..
qed

theorem RuntimeCastFromNano_odd_witness:
  "(60000000000 :: int64_t) \<noteq> - (2 ^ 63)
   \<and> RuntimeCastFromNano_exact (- 60000000000) Minutes
       = - RuntimeCastFromNano_exact 60000000000 Minutes
   \<and> RuntimeCastFromNano_exact (- 60000000000) Minutes = - 1
   \<and> RuntimeCastFromNano (- 60000000000) Minutes = - 1"
proof -
  have h: "(60000000000 :: int64_t) \<noteq> - (2 ^ 63)" by simp
  have v: "RuntimeCastFromNano_exact 60000000000 Minutes = 1"
    by (simp add: RuntimeCastFromNano_exact_def switch_value_def Precision_defs unit_exact_defs
        ratio_defs)
  show ?thesis
    using h v RuntimeCastFromNano_examples(1) RuntimeCastFromNano_odd [OF h, of Minutes]
    by simp
qed

text \<open>
  C10 as stated fails at the least count: its negation in 64 bits is the same count, so
  the conversion of the negated count is \<open>- 2 ^ 63\<close> again and not \<open>2 ^ 63\<close>.
\<close>

theorem RuntimeCastFromNano_odd_counterexample:
  "RuntimeCastFromNano_exact (- (- (2 ^ 63))) Nanoseconds = - (2 ^ 63)
   \<and> - RuntimeCastFromNano_exact (- (2 ^ 63)) Nanoseconds = 2 ^ 63
   \<and> RuntimeCastFromNano_exact (- (- (2 ^ 63))) Nanoseconds
       \<noteq> - RuntimeCastFromNano_exact (- (2 ^ 63)) Nanoseconds"
  by (simp add: RuntimeCastFromNano_exact_def switch_value_def Precision_defs unit_exact_defs)

section \<open>The member functions in closed form\<close>

lemma beginDur_eq: "beginDur (this, w) = (m_begin this - m_begin (GLOBAL_CLOCK w), this, w)"
  by (simp add: beginDur_def)

lemma nowDur_eq:
  "nowDur (this, w) =
     (steady (clk w) (reads (clk w)) - m_begin (GLOBAL_CLOCK w), this,
      w\<lparr>clk := (clk w)\<lparr>reads := reads (clk w) + 1\<rparr>\<rparr>)"
  by (simp add: nowDur_def ClockType_now_def)

lemma tare_eq:
  "tare (this, w) =
     ((), this\<lparr>m_begin := steady (clk w) (reads (clk w))\<rparr>,
      w\<lparr>clk := (clk w)\<lparr>reads := reads (clk w) + 1\<rparr>\<rparr>)"
  by (simp add: tare_def ClockType_now_def)

lemma elapsedRawNanoDur_eq:
  "elapsedRawNanoDur t (this, w) =
     (if t
      then (steady (clk w) (reads (clk w)) - m_begin this,
            this\<lparr>m_begin := steady (clk w) (reads (clk w) + 1)\<rparr>,
            w\<lparr>clk := (clk w)\<lparr>reads := reads (clk w) + 2\<rparr>\<rparr>)
      else (steady (clk w) (reads (clk w)) - m_begin this, this,
            w\<lparr>clk := (clk w)\<lparr>reads := reads (clk w) + 1\<rparr>\<rparr>))"
  by (simp add: elapsedRawNanoDur_def nowDur_eq beginDur_eq tare_eq Let_def)

lemma elapsedRawNano_eq:
  "elapsedRawNano t (this, w) =
     (if t
      then (steady (clk w) (reads (clk w)) - m_begin this,
            this\<lparr>m_begin := steady (clk w) (reads (clk w) + 1)\<rparr>,
            w\<lparr>clk := (clk w)\<lparr>reads := reads (clk w) + 2\<rparr>\<rparr>)
      else (steady (clk w) (reads (clk w)) - m_begin this, this,
            w\<lparr>clk := (clk w)\<lparr>reads := reads (clk w) + 1\<rparr>\<rparr>))"
  by (simp add: elapsedRawNano_def elapsedRawNanoDur_eq tare_eq Let_def)

lemmas member_eqs =
  beginDur_eq nowDur_eq tare_eq elapsedRawNanoDur_eq elapsedRawNano_eq
  begin_int64_def begin_double_def now_int64_def now_double_def
  elapsed_double_def elapsed_int64_def

section \<open>Frame lemmas\<close>

lemma members_keep_epoch:
  "GLOBAL_CLOCK (snd (snd (tare (this, w)))) = GLOBAL_CLOCK w"
  "GLOBAL_CLOCK (snd (snd (beginDur (this, w)))) = GLOBAL_CLOCK w"
  "GLOBAL_CLOCK (snd (snd (nowDur (this, w)))) = GLOBAL_CLOCK w"
  "GLOBAL_CLOCK (snd (snd (begin_int64 p (this, w)))) = GLOBAL_CLOCK w"
  "GLOBAL_CLOCK (snd (snd (begin_double p (this, w)))) = GLOBAL_CLOCK w"
  "GLOBAL_CLOCK (snd (snd (now_int64 p (this, w)))) = GLOBAL_CLOCK w"
  "GLOBAL_CLOCK (snd (snd (now_double p (this, w)))) = GLOBAL_CLOCK w"
  "GLOBAL_CLOCK (snd (snd (elapsedRawNanoDur t (this, w)))) = GLOBAL_CLOCK w"
  "GLOBAL_CLOCK (snd (snd (elapsedRawNano t (this, w)))) = GLOBAL_CLOCK w"
  "GLOBAL_CLOCK (snd (snd (elapsed_double p t (this, w)))) = GLOBAL_CLOCK w"
  "GLOBAL_CLOCK (snd (snd (elapsed_int64 p t (this, w)))) = GLOBAL_CLOCK w"
  by (simp_all add: member_eqs)

lemma queries_keep_this:
  "fst (snd (beginDur (this, w))) = this"
  "fst (snd (nowDur (this, w))) = this"
  "fst (snd (begin_int64 p (this, w))) = this"
  "fst (snd (begin_double p (this, w))) = this"
  "fst (snd (now_int64 p (this, w))) = this"
  "fst (snd (now_double p (this, w))) = this"
  "fst (snd (elapsedRawNanoDur False (this, w))) = this"
  "fst (snd (elapsedRawNano False (this, w))) = this"
  "fst (snd (elapsed_double p False (this, w))) = this"
  "fst (snd (elapsed_int64 p False (this, w))) = this"
  by (simp_all add: member_eqs)

lemma invoke_Some:
  assumes "invoke m wrap i (objs, w) = Some (r, objs', w')"
  shows "i < length objs \<and> r = wrap (fst (m (objs ! i, w)))
         \<and> objs' = objs[i := fst (snd (m (objs ! i, w)))]
         \<and> w' = snd (snd (m (objs ! i, w)))"
  using assms by (auto simp: invoke_def split: if_splits prod.splits)

lemma exec_keeps_epoch:
  assumes "exec c (objs, w) = Some (r, objs', w')"
  shows "GLOBAL_CLOCK w' = GLOBAL_CLOCK w"
  using assms
  by (cases c) (auto simp: ADVClock_ctor_def ClockType_now_def members_keep_epoch
      dest!: invoke_Some)

lemma run_keeps_epoch:
  "run cs (objs, w) = Some (rs, objs', w') \<Longrightarrow> GLOBAL_CLOCK w' = GLOBAL_CLOCK w"
proof (induction cs arbitrary: objs w rs)
  case Nil
  then show ?case by simp
next
  case (Cons c cs)
  from Cons.prems obtain r objs1 w1 rs1 where
    e: "exec c (objs, w) = Some (r, objs1, w1)" and
    r: "run cs (objs1, w1) = Some (rs1, objs', w')"
    by (auto split: option.splits)
  from Cons.IH [OF r] exec_keeps_epoch [OF e] show ?case by simp
qed

lemma static_init_epoch: "GLOBAL_CLOCK (static_init k) = \<lparr>m_begin = steady k (reads k)\<rparr>"
  by (simp add: static_init_def ADVClock_ctor_def ClockType_now_def)

section \<open>The stopwatch\<close>

text \<open>
  C2. The elapsed duration, computed as \<open>nowDur() - beginDur()\<close>, that is as
  (now - epoch) - (reference point - epoch), equals the clock sample minus the reference
  point, for every clock sample, reference point and process epoch: the epoch cancels in
  64-bit arithmetic.
\<close>

theorem elapsed_is_now_minus_reference:
  "fst (elapsedRawNanoDur t (this, w)) = spec_elapsed this w
   \<and> fst (nowDur (this, w)) - fst (beginDur (this, w)) = spec_elapsed this w"
  by (simp add: elapsedRawNanoDur_eq nowDur_eq beginDur_eq spec_elapsed_def ClockType_now_def)

text \<open>
  C3. With \<open>tareClock = true\<close> the returned duration is the clock sample of the
  measurement minus the reference point held before the call; the reset then stores the
  next clock sample, a second read, as the new reference point, so two samples are
  consumed. The returned value is the one the call without reset returns.
\<close>

theorem elapsed_tare_resamples:
  "elapsedRawNanoDur True (this, w) =
     (steady (clk w) (reads (clk w)) - m_begin this,
      this\<lparr>m_begin := steady (clk w) (reads (clk w) + 1)\<rparr>,
      w\<lparr>clk := (clk w)\<lparr>reads := reads (clk w) + 2\<rparr>\<rparr>)
   \<and> fst (elapsedRawNanoDur True (this, w)) = fst (elapsedRawNanoDur False (this, w))
   \<and> elapsedRawNano True (this, w) =
     (steady (clk w) (reads (clk w)) - m_begin this,
      this\<lparr>m_begin := steady (clk w) (reads (clk w) + 1)\<rparr>,
      w\<lparr>clk := (clk w)\<lparr>reads := reads (clk w) + 2\<rparr>\<rparr>)
   \<and> elapsed_double p True (this, w) =
     (RuntimeCast (steady (clk w) (reads (clk w)) - m_begin this) p,
      this\<lparr>m_begin := steady (clk w) (reads (clk w) + 1)\<rparr>,
      w\<lparr>clk := (clk w)\<lparr>reads := reads (clk w) + 2\<rparr>\<rparr>)"
  by (simp add: elapsedRawNanoDur_eq elapsedRawNano_eq elapsed_double_def)

text \<open>
  C6, as amended. \<open>begin\<close> and \<open>now\<close> ignore their precision argument: for every selector
  they convert with \<open>Precision::Nanoseconds\<close>, never to the unit. What they return is the
  nanosecond count (reference point minus epoch for \<open>begin\<close>, clock sample minus epoch
  for \<open>now\<close>) converted to \<open>double\<close> and from there to the return type; at \<open>int64_t\<close>, their
  default, that is the raw count whenever its magnitude is at most \<open>2 ^ 53\<close>.
\<close>

theorem begin_now_ignore_precision:
  "begin_int64 p (this, w) =
       (double_to_int64 (int64_to_double (m_begin this - m_begin (GLOBAL_CLOCK w))), this, w)
   \<and> begin_double p (this, w) =
       (int64_to_double (m_begin this - m_begin (GLOBAL_CLOCK w)), this, w)
   \<and> now_int64 p (this, w) =
       (double_to_int64
          (int64_to_double (steady (clk w) (reads (clk w)) - m_begin (GLOBAL_CLOCK w))),
        this, w\<lparr>clk := (clk w)\<lparr>reads := reads (clk w) + 1\<rparr>\<rparr>)
   \<and> now_double p (this, w) =
       (int64_to_double (steady (clk w) (reads (clk w)) - m_begin (GLOBAL_CLOCK w)), this,
        w\<lparr>clk := (clk w)\<lparr>reads := reads (clk w) + 1\<rparr>\<rparr>)
   \<and> (\<bar>sint (m_begin this - m_begin (GLOBAL_CLOCK w))\<bar> \<le> 2 ^ 53 \<longrightarrow>
        begin_int64 p (this, w) = (Some (m_begin this - m_begin (GLOBAL_CLOCK w)), this, w))
   \<and> (\<bar>sint (steady (clk w) (reads (clk w)) - m_begin (GLOBAL_CLOCK w))\<bar> \<le> 2 ^ 53 \<longrightarrow>
        now_int64 p (this, w) =
          (Some (steady (clk w) (reads (clk w)) - m_begin (GLOBAL_CLOCK w)), this,
           w\<lparr>clk := (clk w)\<lparr>reads := reads (clk w) + 1\<rparr>\<rparr>))"
  by (simp add: begin_int64_def begin_double_def now_int64_def now_double_def
      beginDur_eq nowDur_eq RuntimeCast_Nanoseconds RuntimeCast_int64_Nanoseconds
      int64_through_double)

theorem begin_now_ignore_precision_witness:
  "\<bar>sint (1030 - 1000 :: int64_t)\<bar> \<le> 2 ^ 53
   \<and> begin_int64 Seconds
        (\<lparr>m_begin = 1030\<rparr>,
         \<lparr>clk = \<lparr>steady = of_nat, reads = 1060\<rparr>, GLOBAL_CLOCK = \<lparr>m_begin = 1000\<rparr>\<rparr>)
       = (Some 30, \<lparr>m_begin = 1030\<rparr>,
          \<lparr>clk = \<lparr>steady = of_nat, reads = 1060\<rparr>, GLOBAL_CLOCK = \<lparr>m_begin = 1000\<rparr>\<rparr>)
   \<and> now_int64 Seconds
        (\<lparr>m_begin = 1030\<rparr>,
         \<lparr>clk = \<lparr>steady = of_nat, reads = 1060\<rparr>, GLOBAL_CLOCK = \<lparr>m_begin = 1000\<rparr>\<rparr>)
       = (Some 60, \<lparr>m_begin = 1030\<rparr>,
          \<lparr>clk = \<lparr>steady = of_nat, reads = 1061\<rparr>, GLOBAL_CLOCK = \<lparr>m_begin = 1000\<rparr>\<rparr>)"
  using begin_now_ignore_precision
    [of Seconds "\<lparr>m_begin = 1030\<rparr>"
        "\<lparr>clk = \<lparr>steady = of_nat, reads = 1060\<rparr>, GLOBAL_CLOCK = \<lparr>m_begin = 1000\<rparr>\<rparr>"]
  by (simp add: int64_through_double)

text \<open>
  C6 as stated fails above \<open>2 ^ 53\<close> nanoseconds: at the count \<open>2 ^ 53 + 1\<close> the default
  \<open>begin\<close> and \<open>now\<close> return \<open>2 ^ 53\<close>, the double nearest to the count.
\<close>

theorem begin_now_ignore_precision_counterexample:
  "fst (begin_int64 Nanoseconds
        (\<lparr>m_begin = 9007199254740993\<rparr>,
         \<lparr>clk = \<lparr>steady = of_nat, reads = 9007199254740993\<rparr>,
          GLOBAL_CLOCK = \<lparr>m_begin = 0\<rparr>\<rparr>)) = Some 9007199254740992
   \<and> fst (beginDur
        (\<lparr>m_begin = 9007199254740993\<rparr>,
         \<lparr>clk = \<lparr>steady = of_nat, reads = 9007199254740993\<rparr>,
          GLOBAL_CLOCK = \<lparr>m_begin = 0\<rparr>\<rparr>)) = 9007199254740993
   \<and> fst (now_int64 Nanoseconds
        (\<lparr>m_begin = 9007199254740993\<rparr>,
         \<lparr>clk = \<lparr>steady = of_nat, reads = 9007199254740993\<rparr>,
          GLOBAL_CLOCK = \<lparr>m_begin = 0\<rparr>\<rparr>)) = Some 9007199254740992
   \<and> fst (nowDur
        (\<lparr>m_begin = 9007199254740993\<rparr>,
         \<lparr>clk = \<lparr>steady = of_nat, reads = 9007199254740993\<rparr>,
          GLOBAL_CLOCK = \<lparr>m_begin = 0\<rparr>\<rparr>)) = 9007199254740993"
  by (simp add: begin_int64_def now_int64_def beginDur_eq nowDur_eq
      RuntimeCast_int64_rounds)

text \<open>
  C7. The process epoch is the one clock sample that static initialisation of
  \<open>GLOBAL_CLOCK\<close> takes. Whatever calls a client makes afterwards, on however many
  instances (construction, elapsed, tare and the rest of the interface), the epoch still
  holds that sample, and it is the value that \<open>beginDur\<close> and \<open>nowDur\<close> of every instance
  subtract.
\<close>

theorem process_epoch_never_written:
  assumes "run cs ([], static_init k) = Some (rs, objs, w)"
  shows "GLOBAL_CLOCK w = \<lparr>m_begin = steady k (reads k)\<rparr>
         \<and> (\<forall>this \<in> set objs.
               fst (beginDur (this, w)) = m_begin this - steady k (reads k)
             \<and> fst (nowDur (this, w)) = steady (clk w) (reads (clk w)) - steady k (reads k))"
proof -
  from run_keeps_epoch [OF assms] have "GLOBAL_CLOCK w = GLOBAL_CLOCK (static_init k)" .
  then have "GLOBAL_CLOCK w = \<lparr>m_begin = steady k (reads k)\<rparr>"
    by (simp add: static_init_epoch)
  then show ?thesis by (simp add: beginDur_eq nowDur_eq)
qed

theorem process_epoch_never_written_witness:
  "run [New, ElapsedRawNanoDur 0 True, BeginDur 0, New, Tare 0, NowDur 1]
       ([], static_init \<lparr>steady = (\<lambda>n. 1000 + 10 * of_nat n), reads = 0\<rparr>)
     = Some ([Object 0, Duration 10, Duration 30, Object 1, Void, Duration 60],
             [\<lparr>m_begin = 1050\<rparr>, \<lparr>m_begin = 1040\<rparr>],
             \<lparr>clk = \<lparr>steady = (\<lambda>n. 1000 + 10 * of_nat n), reads = 7\<rparr>,
              GLOBAL_CLOCK = \<lparr>m_begin = 1000\<rparr>\<rparr>)
   \<and> fst (beginDur (\<lparr>m_begin = 1050\<rparr>,
             \<lparr>clk = \<lparr>steady = (\<lambda>n. 1000 + 10 * of_nat n), reads = 7\<rparr>,
              GLOBAL_CLOCK = \<lparr>m_begin = 1000\<rparr>\<rparr>)) = 50
   \<and> fst (beginDur (\<lparr>m_begin = 1040\<rparr>,
             \<lparr>clk = \<lparr>steady = (\<lambda>n. 1000 + 10 * of_nat n), reads = 7\<rparr>,
              GLOBAL_CLOCK = \<lparr>m_begin = 1000\<rparr>\<rparr>)) = 40
   \<and> fst (nowDur (\<lparr>m_begin = 1040\<rparr>,
             \<lparr>clk = \<lparr>steady = (\<lambda>n. 1000 + 10 * of_nat n), reads = 7\<rparr>,
              GLOBAL_CLOCK = \<lparr>m_begin = 1000\<rparr>\<rparr>)) = 70"
proof -
  have h: "run [New, ElapsedRawNanoDur 0 True, BeginDur 0, New, Tare 0, NowDur 1]
       ([], static_init \<lparr>steady = (\<lambda>n. 1000 + 10 * of_nat n), reads = 0\<rparr>)
     = Some ([Object 0, Duration 10, Duration 30, Object 1, Void, Duration 60],
             [\<lparr>m_begin = 1050\<rparr>, \<lparr>m_begin = 1040\<rparr>],
             \<lparr>clk = \<lparr>steady = (\<lambda>n. 1000 + 10 * of_nat n), reads = 7\<rparr>,
              GLOBAL_CLOCK = \<lparr>m_begin = 1000\<rparr>\<rparr>)"
    by (simp add: static_init_def ADVClock_ctor_def ClockType_now_def invoke_def member_eqs)
  show ?thesis
    using h process_epoch_never_written [OF h] by simp
qed

text \<open>
  C8. Every query leaves the instances as they were: \<open>beginDur\<close>, \<open>begin\<close>, \<open>nowDur\<close>,
  \<open>now\<close>, the static conversions and the elapsed functions called without reset. Only
  construction, \<open>tare\<close> and the elapsed functions called with \<open>tareClock = true\<close> are
  left over as calls that write a reference point.
\<close>

theorem queries_do_not_mutate:
  assumes "exec c (objs, w) = Some (r, objs', w')" and "\<not> mutates c"
  shows "objs' = objs"
  using assms
  by (cases c) (auto simp: queries_keep_this dest!: invoke_Some)

theorem queries_do_not_mutate_witness:
  "exec (Elapsed_double 0 Milliseconds False)
        ([\<lparr>m_begin = 2000000\<rparr>],
         \<lparr>clk = \<lparr>steady = (\<lambda>n. 12000000), reads = 5\<rparr>, GLOBAL_CLOCK = \<lparr>m_begin = 1000\<rparr>\<rparr>)
     = Some (Double 10, [\<lparr>m_begin = 2000000\<rparr>],
         \<lparr>clk = \<lparr>steady = (\<lambda>n. 12000000), reads = 6\<rparr>, GLOBAL_CLOCK = \<lparr>m_begin = 1000\<rparr>\<rparr>)
   \<and> \<not> mutates (Elapsed_double 0 Milliseconds False)
   \<and> [\<lparr>m_begin = 2000000 :: time_point\<rparr>] = [\<lparr>m_begin = 2000000\<rparr>]"
proof -
  have h: "exec (Elapsed_double 0 Milliseconds False)
        ([\<lparr>m_begin = 2000000\<rparr>],
         \<lparr>clk = \<lparr>steady = (\<lambda>n. 12000000), reads = 5\<rparr>, GLOBAL_CLOCK = \<lparr>m_begin = 1000\<rparr>\<rparr>)
     = Some (Double 10, [\<lparr>m_begin = 2000000\<rparr>],
         \<lparr>clk = \<lparr>steady = (\<lambda>n. 12000000), reads = 6\<rparr>, GLOBAL_CLOCK = \<lparr>m_begin = 1000\<rparr>\<rparr>)"
    by (simp add: invoke_def member_eqs RuntimeCast_ten_milliseconds)
  have m: "\<not> mutates (Elapsed_double 0 Milliseconds False)" by simp
  show ?thesis
    using h m queries_do_not_mutate [OF h m] by simp
qed

end
